theory Spec2Isabelle
  imports Main "HOL-Library.Sublist"
begin

section \<open>The Saved Cases page (frontend/src/app/saved/page.tsx)\<close>

subsection \<open>Data\<close>

text \<open>
  \<^verbatim>\<open>interface SavedCase { id: string; query: string; analysis: string; date: string;
  sourcesCount: number; }\<close>
  The field \<open>id\<close> is written \<open>id_sc\<close> (HOL has the identity function under that name).
  No function of the page computes with \<open>sourcesCount\<close> beyond comparing it with zero,
  so the number type is left as a type parameter.
\<close>

record 'n SavedCase =
  id_sc :: string
  query :: string
  analysis :: string
  date :: string
  sourcesCount :: 'n

text \<open>
  The component's state, as its two \<open>useState\<close> hooks declare it, together with what
  the effects leave behind: the routes pushed on the router and the lines written by
  \<open>console.error\<close>.
\<close>

record 'n page_state =
  savedCases :: "'n SavedCase list"
  loading :: bool
  pushed :: "string list"
  console_errors :: "string list"

text \<open>\<open>localStorage\<close>: string keys to string values; \<open>getItem\<close> of an absent key is \<open>null\<close>.\<close>

type_synonym storage = "string \<rightharpoonup> string"

definition getItem :: "storage \<Rightarrow> string \<Rightarrow> string option" where
  "getItem ls k = ls k"

definition setItem :: "storage \<Rightarrow> string \<Rightarrow> string \<Rightarrow> storage" where
  "setItem ls k v = ls(k \<mapsto> v)"

subsection \<open>handleDeleteCase\<close>

text \<open>
  \<^verbatim>\<open>const updatedCases = savedCases.filter((item) => item.id !== id);
  setSavedCases(updatedCases);
  localStorage.setItem("savedCases", JSON.stringify(updatedCases));\<close>
  \<open>JSON.stringify\<close> is the platform's; it is the parameter \<open>stringify\<close>.
\<close>

definition handleDeleteCase ::
  "('n SavedCase list \<Rightarrow> string) \<Rightarrow> string \<Rightarrow> 'n page_state \<times> storage
     \<Rightarrow> 'n page_state \<times> storage" where
  "handleDeleteCase stringify i = (\<lambda>(st, ls).
     let updatedCases = filter (\<lambda>item. id_sc item \<noteq> i) (savedCases st)
     in (st\<lparr>savedCases := updatedCases\<rparr>,
         setItem ls ''savedCases'' (stringify updatedCases)))"

subsection \<open>The load effect\<close>

text \<open>
  \<^verbatim>\<open>getAuthState()\<close> comes from \<open>@/utils/auth\<close>; the page reads only \<open>authState?.token\<close>.
  The value may be absent, and so may its token.
\<close>

record auth_state =
  token :: "string option"

text \<open>\<^verbatim>\<open>authState?.token\<close> as a condition: absent values and the empty string are falsy.\<close>

definition has_token :: "auth_state option \<Rightarrow> bool" where
  "has_token a =
     (case a of None \<Rightarrow> False
      | Some s \<Rightarrow> (case token s of None \<Rightarrow> False | Some t \<Rightarrow> t \<noteq> []))"

text \<open>\<^verbatim>\<open>localStorage.getItem("savedCases") || "[]"\<close>: \<open>null\<close> and \<open>""\<close> give the right operand.\<close>

definition or_default :: "string option \<Rightarrow> string \<Rightarrow> string" where
  "or_default v d = (case v of None \<Rightarrow> d | Some s \<Rightarrow> (if s = [] then d else s))"

text \<open>
  \<^verbatim>\<open>useEffect(() => {
    const authState = getAuthState();
    if (!authState?.token) { router.push("/login"); return; }
    try {
      const cases = JSON.parse(localStorage.getItem("savedCases") || "[]");
      setSavedCases(cases);
    } catch (error) { console.error("Error loading saved cases:", error); }
    finally { setLoading(false); }
  }, [router]);\<close>
  \<open>JSON.parse\<close> is the platform's; it is the parameter \<open>parse\<close>, which either throws
  (\<open>Inl\<close>, with the exception's message) or returns the stored cases. Its result is taken
  at the type the state hook declares, \<open>SavedCase[]\<close>, as the source does.
\<close>

definition load_effect ::
  "(string \<Rightarrow> string + 'n SavedCase list) \<Rightarrow> auth_state option \<Rightarrow> storage
     \<Rightarrow> 'n page_state \<Rightarrow> 'n page_state" where
  "load_effect parse authState ls st =
     (if \<not> has_token authState then st\<lparr>pushed := pushed st @ [''/login'']\<rparr>
      else
        let st1 =
          (case parse (or_default (getItem ls ''savedCases'') ''[]'') of
             Inr cases \<Rightarrow> st\<lparr>savedCases := cases\<rparr>
           | Inl err \<Rightarrow>
               st\<lparr>console_errors :=
                    console_errors st @ [''Error loading saved cases: '' @ err]\<rparr>)
        in st1\<lparr>loading := False\<rparr>)"

text \<open>\<^verbatim>\<open>useState<SavedCase[]>([])\<close>, \<^verbatim>\<open>useState(true)\<close>; nothing pushed or logged yet.\<close>

definition initial_state :: "'n page_state" where
  "initial_state = \<lparr>savedCases = [], loading = True, pushed = [], console_errors = []\<rparr>"

subsection \<open>Which content the page shows\<close>

text \<open>
  \<^verbatim>\<open>{loading ? (skeleton) : savedCases.length > 0 ? (the list of cards) : (empty state)}\<close>
\<close>

datatype 'n content = Skeleton | CaseCards "'n SavedCase list" | EmptyState

definition page_content :: "'n page_state \<Rightarrow> 'n content" where
  "page_content st =
     (if loading st then Skeleton
      else if length (savedCases st) > 0 then CaseCards (savedCases st)
      else EmptyState)"

section \<open>The complaint template (ai_agent/templates/complaint_template.txt)\<close>

subsection \<open>Templates and their evaluation\<close>

text \<open>
  The template is a text with two kinds of placeholder: \<^verbatim>\<open>{{ name }}\<close> and
  \<^verbatim>\<open>{{ name|join('\n') }}\<close>. A template is the list of its pieces in order.
\<close>

datatype expr = Var string | Join string string

datatype piece = Text string | Out expr

type_synonym template = "piece list"

text \<open>A field is a scalar string or an ordered sequence of strings.\<close>

datatype field_value = Scalar string | Seq "string list"

type_synonym fields = "string \<rightharpoonup> field_value"

text \<open>The separator's \<open>join\<close>: the entries in their order, the separator between neighbours.\<close>

fun join :: "string \<Rightarrow> string list \<Rightarrow> string" where
  "join sep [] = []"
| "join sep [x] = x"
| "join sep (x # y # ys) = x @ sep @ join sep (y # ys)"

text \<open>
  The value of a placeholder, with the template engine's defaults. A name that is not
  supplied prints as the empty text and joins as the empty sequence. \<open>join\<close> of a scalar
  runs over its characters. A sequence printed without \<open>join\<close> is the host language's
  text of a list, the parameter \<open>show_seq\<close>.
\<close>

fun eval_expr :: "(string list \<Rightarrow> string) \<Rightarrow> fields \<Rightarrow> expr \<Rightarrow> string" where
  "eval_expr show_seq f (Var n) =
     (case f n of None \<Rightarrow> [] | Some (Scalar s) \<Rightarrow> s | Some (Seq xs) \<Rightarrow> show_seq xs)"
| "eval_expr show_seq f (Join n sep) =
     (case f n of None \<Rightarrow> []
      | Some (Seq xs) \<Rightarrow> join sep xs
      | Some (Scalar s) \<Rightarrow> join sep (map (\<lambda>c. [c]) s))"

fun eval_piece :: "(string list \<Rightarrow> string) \<Rightarrow> fields \<Rightarrow> piece \<Rightarrow> string" where
  "eval_piece show_seq f (Text t) = t"
| "eval_piece show_seq f (Out e) = eval_expr show_seq f e"

definition render_template :: "(string list \<Rightarrow> string) \<Rightarrow> template \<Rightarrow> fields \<Rightarrow> string" where
  "render_template show_seq t f = concat (map (eval_piece show_seq f) t)"

subsection \<open>The complaint template\<close>

text \<open>
  The file, piece by piece. It has no newline after its last line. It is written in three
  parts: up to the line before the prayers, the two lists with the heading between them,
  and the rest.
\<close>

definition complaint_opening :: template where
  "complaint_opening =
     [Text ''To,\<newline>'',
      Out (Var ''authority_designation''), Text ''\<newline>'',
      Out (Var ''authority_name''), Text ''\<newline>'',
      Out (Var ''authority_address''), Text ''\<newline>\<newline>'',
      Text ''Subject: '', Out (Var ''complaint_subject''), Text ''\<newline>\<newline>'',
      Text ''Respected Sir/Madam,\<newline>\<newline>'',
      Text ''I, '', Out (Var ''user_name''), Text '', resident of '', Out (Var ''location''),
      Text '', wish to file a formal complaint against '', Out (Var ''respondent_name''),
      Text '' regarding the following matter:\<newline>\<newline>'',
      Text ''FACTS OF THE CASE:\<newline>\<newline>'',
      Out (Var ''issue_summary''), Text ''\<newline>\<newline>'',
      Text ''LEGAL BASIS:\<newline>\<newline>'',
      Out (Var ''legal_insights''), Text ''\<newline>\<newline>'',
      Text ''PRAYERS:\<newline>\<newline>'',
      Text ''In light of the above, I most respectfully pray that:\<newline>\<newline>'']"

definition complaint_lists :: template where
  "complaint_lists =
     [Out (Join ''prayers'' ''\<newline>''), Text ''\<newline>\<newline>'',
      Text ''DOCUMENTS ENCLOSED:\<newline>'',
      Out (Join ''documents'' ''\<newline>''), Text ''\<newline>\<newline>'']"

definition complaint_closing :: template where
  "complaint_closing =
     [Text ''I hereby declare that the information provided above is true to the best of my knowledge and belief.\<newline>\<newline>'',
      Text ''Date: '', Out (Var ''date''), Text ''\<newline>'',
      Text ''Place: '', Out (Var ''location''), Text ''\<newline>\<newline>'',
      Text ''Yours faithfully,\<newline>'',
      Out (Var ''user_name''), Text ''\<newline>'',
      Out (Var ''contact_details'')]"

definition complaint_template :: template where
  "complaint_template = complaint_opening @ complaint_lists @ complaint_closing"

subsection \<open>Lines of a text\<close>

text \<open>
  The lines of a text are what stands between its newline characters; a text with \<open>n\<close>
  newlines has \<open>n + 1\<close> lines, the last one possibly empty.
\<close>

fun lines_of :: "string \<Rightarrow> string list" where
  "lines_of [] = [[]]"
| "lines_of (c # cs) =
     (if c = CHR 0x0A then [] # lines_of cs
      else (case lines_of cs of [] \<Rightarrow> [[c]] | l # ls \<Rightarrow> (c # l) # ls))"

subsection \<open>The scenario of the specification\<close>

definition scenario_fields :: fields where
  "scenario_fields = map_of
     [(''authority_designation'', Scalar ''Inspector''),
      (''authority_name'', Scalar ''Station House Officer''),
      (''authority_address'', Scalar ''MG Road''),
      (''complaint_subject'', Scalar ''Theft''),
      (''user_name'', Scalar ''Asha Rao''),
      (''location'', Scalar ''Pune''),
      (''respondent_name'', Scalar ''John Smith''),
      (''issue_summary'', Scalar ''...''),
      (''legal_insights'', Scalar ''...''),
      (''prayers'', Seq [''Register FIR'', ''Initiate investigation'']),
      (''documents'', Seq [''ID proof'']),
      (''date'', Scalar ''2024-01-01''),
      (''contact_details'', Scalar ''9999999999'')]"

section \<open>Document Template Renderer\<close>

text \<open>
  Modelled from the spec: \<open>render(template_kind, fields) -> RenderedDocument\<close>, the function
  that looks the template up by its kind and validates the field mapping before any
  substitution. The sources hold the complaint template only; the code that calls the
  template engine is not among them, nor are the templates of the other kinds.
\<close>

datatype render_error = UnknownTemplate string | MissingField string

record 't RenderedDocument =
  template_kind :: string
  filled_text :: string
  creation_time :: 't

text \<open>
  Modelled from the spec: the ordered list of required placeholder names of a template.
  They are its scalar placeholders, in the order of the text.
\<close>

fun required_fields :: "template \<Rightarrow> string list" where
  "required_fields [] = []"
| "required_fields (Out (Var n) # t) = n # required_fields t"
| "required_fields (p # t) = required_fields t"

text \<open>
  Modelled from the spec: the list-valued placeholder names of a template, those it
  renders with \<open>join\<close>. They are optional.
\<close>

fun list_fields :: "template \<Rightarrow> string list" where
  "list_fields [] = []"
| "list_fields (Out (Join n sep) # t) = n # list_fields t"
| "list_fields (p # t) = list_fields t"

text \<open>
  Modelled from the spec: an unknown kind fails with \<open>UnknownTemplate\<close>; the first required
  name without a value fails with \<open>MissingField\<close> of that name; otherwise the document is
  the template filled in, a list-valued name without a value giving an empty section.
  The table of templates, the text of a list and the clock are parameters.
\<close>

definition render ::
  "(string list \<Rightarrow> string) \<Rightarrow> 't \<Rightarrow> (string \<times> template) list \<Rightarrow> string \<Rightarrow> fields
     \<Rightarrow> render_error + 't RenderedDocument" where
  "render show_seq now registry kind f =
     (case map_of registry kind of
        None \<Rightarrow> Inl (UnknownTemplate kind)
      | Some t \<Rightarrow>
          (case find (\<lambda>n. f n = None) (required_fields t) of
             Some n \<Rightarrow> Inl (MissingField n)
           | None \<Rightarrow>
               Inr \<lparr>template_kind = kind,
                    filled_text = render_template show_seq t f,
                    creation_time = now\<rparr>))"

text \<open>The table with the one template of the sources.\<close>

definition templates :: "(string \<times> template) list" where
  "templates = [(''complaint'', complaint_template)]"

section \<open>Concrete inputs\<close>

text \<open>
  A parser that accepts the text of the empty array and throws on everything else; it
  stands for \<open>JSON.parse\<close> where a statement is evaluated on concrete storage contents.
\<close>

definition strict_parse :: "string \<Rightarrow> string + int SavedCase list" where
  "strict_parse s = (if s = ''[]'' then Inr [] else Inl ''SyntaxError'')"

text \<open>A serializer that writes the ids of the cases, each followed by a semicolon.\<close>

definition ids_text :: "int SavedCase list \<Rightarrow> string" where
  "ids_text cs = concat (map (\<lambda>c. id_sc c @ '';'') cs)"

definition case_of_id :: "string \<Rightarrow> int SavedCase" where
  "case_of_id i = \<lparr>id_sc = i, query = ''q'', analysis = ''a'', date = ''2024-01-01'',
                   sourcesCount = 0\<rparr>"

text \<open>The scenario with the prayers in an order that is neither sorted nor free of repetition.\<close>

definition unsorted_fields :: fields where
  "unsorted_fields = scenario_fields(''prayers'' \<mapsto> Seq [''b'', ''a'', ''b''])"

text \<open>The same with the documents omitted: one list supplied, the other not.\<close>

definition unsorted_without_documents :: fields where
  "unsorted_without_documents = unsorted_fields(''documents'' := None)"

text \<open>The scenario with one required scalar field omitted, and with one list omitted.\<close>

definition without_user_name :: fields where
  "without_user_name = scenario_fields(''user_name'' := None)"

definition without_documents :: fields where
  "without_documents = scenario_fields(''documents'' := None)"

section \<open>Auxiliary facts\<close>

lemma load_effect_loading:
  "has_token a \<Longrightarrow> loading (load_effect parse a ls st) = False"
  by (simp add: load_effect_def Let_def split: sum.splits)

lemma lines_of_nonempty: "lines_of s \<noteq> []"
  by (induction s) (auto split: list.splits)

lemma lines_of_single: "CHR 0x0A \<notin> set x \<Longrightarrow> lines_of x = [x]"
  by (induction x) auto

text \<open>Splitting at newlines distributes over a newline between two texts.\<close>

lemma lines_of_append_newline: "lines_of (a @ CHR 0x0A # b) = lines_of a @ lines_of b"
proof (induction a)
  case Nil
  show ?case by simp
next
  case (Cons c a)
  show ?case
  proof (cases "c = CHR 0x0A")
    case True
    with Cons show ?thesis by simp
  next
    case False
    obtain l ls where "lines_of a = l # ls"
      using lines_of_nonempty [of a] by (cases "lines_of a") auto
    with False Cons show ?thesis by simp
  qed
qed

lemma lines_of_join:
  "xs \<noteq> [] \<Longrightarrow> \<forall>x\<in>set xs. CHR 0x0A \<notin> set x \<Longrightarrow> lines_of (join ''\<newline>'' xs) = xs"
proof (induction "''\<newline>''" xs rule: join.induct)
  case 1
  then show ?case by simp
next
  case (2 x)
  then show ?case by (simp add: lines_of_single)
next
  case (3 x y ys)
  then show ?case by (simp add: lines_of_append_newline lines_of_single)
qed

lemma render_template_append:
  "render_template S (a @ b) f = render_template S a f @ render_template S b f"
  by (simp add: render_template_def)

lemma render_template_Cons:
  "render_template S (p # t) f = eval_piece S f p @ render_template S t f"
  by (simp add: render_template_def)

lemma complaint_lists_text:
  assumes "f ''prayers'' = Some (Seq ps)" and "f ''documents'' = Some (Seq ds)"
  shows "render_template S complaint_lists f =
           join ''\<newline>'' ps @ ''\<newline>\<newline>DOCUMENTS ENCLOSED:\<newline>''
             @ join ''\<newline>'' ds @ ''\<newline>\<newline>''"
  using assms by (simp add: complaint_lists_def render_template_def)

lemma complaint_opening_ends:
  "\<exists>pre. render_template S complaint_opening f = pre @ ''\<newline>''"
  unfolding complaint_opening_def render_template_def
  by (simp del: append_assoc add: append_assoc[symmetric])

lemma sublist_middle: "sublist xs (a @ xs @ b)"
  unfolding sublist_def by blast

text \<open>
  With both lists supplied, non-empty and free of newlines, the document has the prayers
  as consecutive lines in their order, then an empty line, the heading and the documents.
\<close>

lemma complaint_template_lines:
  assumes "f ''prayers'' = Some (Seq ps)" and "f ''documents'' = Some (Seq ds)"
    and "ps \<noteq> []" and "ds \<noteq> []"
    and "\<forall>x\<in>set (ps @ ds). CHR 0x0A \<notin> set x"
  shows "sublist (ps @ [[], ''DOCUMENTS ENCLOSED:''] @ ds)
           (lines_of (render_template S complaint_template f))"
proof -
  obtain pre where pre: "render_template S complaint_opening f = pre @ ''\<newline>''"
    using complaint_opening_ends by blast
  let ?rest = "CHR 0x0A # render_template S complaint_closing f"
  have nl: "\<forall>x\<in>set ps. CHR 0x0A \<notin> set x" "\<forall>x\<in>set ds. CHR 0x0A \<notin> set x"
    using assms(5) by auto
  have "render_template S complaint_template f =
          pre @ CHR 0x0A # (join ''\<newline>'' ps @ CHR 0x0A # ([] @ CHR 0x0A #
            (''DOCUMENTS ENCLOSED:'' @ CHR 0x0A # (join ''\<newline>'' ds @ CHR 0x0A # ?rest))))"
    by (simp add: complaint_template_def render_template_append pre
        complaint_lists_text [OF assms(1,2)])
  then have "lines_of (render_template S complaint_template f) =
          lines_of pre @ (ps @ [[], ''DOCUMENTS ENCLOSED:''] @ ds) @ lines_of ?rest"
    using lines_of_join [OF assms(3) nl(1)] lines_of_join [OF assms(4) nl(2)]
    by (simp only: lines_of_append_newline lines_of_single) (simp add: lines_of_single)
  then show ?thesis
    by (simp only: sublist_middle)
qed

lemma render_template_join_piece:
  "f n = Some (Seq xs) \<Longrightarrow>
     render_template S (a @ Out (Join n sep) # b) f =
       render_template S a f @ join sep xs @ render_template S b f"
  by (simp add: render_template_def)

text \<open>The document, whatever the fields: the two list placeholders between the fixed parts.\<close>

lemma complaint_template_text:
  "render_template S complaint_template f =
     render_template S complaint_opening f
     @ eval_expr S f (Join ''prayers'' ''\<newline>'')
     @ ''\<newline>\<newline>DOCUMENTS ENCLOSED:\<newline>''
     @ eval_expr S f (Join ''documents'' ''\<newline>'')
     @ ''\<newline>\<newline>'' @ render_template S complaint_closing f"
  by (simp add: complaint_template_def complaint_lists_def render_template_def)

lemma complaint_template_split:
  "\<exists>pre. render_template S complaint_template f =
     pre @ CHR 0x0A # (eval_expr S f (Join ''prayers'' ''\<newline>'') @ CHR 0x0A #
       ([] @ CHR 0x0A # (''DOCUMENTS ENCLOSED:'' @ CHR 0x0A #
         (eval_expr S f (Join ''documents'' ''\<newline>'') @ CHR 0x0A #
           ([] @ CHR 0x0A # render_template S complaint_closing f)))))"
proof -
  obtain pre where pre: "render_template S complaint_opening f = pre @ ''\<newline>''"
    using complaint_opening_ends by blast
  show ?thesis
    by (rule exI [of _ pre]) (simp add: complaint_template_text pre)
qed

lemma complaint_template_line_split:
  "\<exists>before after. lines_of (render_template S complaint_template f) =
     before @ lines_of (eval_expr S f (Join ''prayers'' ''\<newline>''))
       @ [[], ''DOCUMENTS ENCLOSED:'']
       @ lines_of (eval_expr S f (Join ''documents'' ''\<newline>'')) @ [[]] @ after"
proof -
  obtain pre where "render_template S complaint_template f =
     pre @ CHR 0x0A # (eval_expr S f (Join ''prayers'' ''\<newline>'') @ CHR 0x0A #
       ([] @ CHR 0x0A # (''DOCUMENTS ENCLOSED:'' @ CHR 0x0A #
         (eval_expr S f (Join ''documents'' ''\<newline>'') @ CHR 0x0A #
           ([] @ CHR 0x0A # render_template S complaint_closing f)))))"
    using complaint_template_split by blast
  then have "lines_of (render_template S complaint_template f) =
     lines_of pre @ lines_of (eval_expr S f (Join ''prayers'' ''\<newline>''))
       @ [[], ''DOCUMENTS ENCLOSED:'']
       @ lines_of (eval_expr S f (Join ''documents'' ''\<newline>'')) @ [[]]
       @ lines_of (render_template S complaint_closing f)"
    by (simp only: lines_of_append_newline) (simp add: lines_of_single)
  then show ?thesis by blast
qed

text \<open>
  Each list on its own: supplied, non-empty and free of newlines, its entries are
  consecutive lines of the document, whether or not the other list is supplied.
\<close>

lemma complaint_prayers_lines:
  assumes "f ''prayers'' = Some (Seq ps)" and "ps \<noteq> []"
    and "\<forall>x\<in>set ps. CHR 0x0A \<notin> set x"
  shows "sublist (ps @ [[], ''DOCUMENTS ENCLOSED:''])
           (lines_of (render_template S complaint_template f))"
proof -
  obtain before after where "lines_of (render_template S complaint_template f) =
     before @ lines_of (eval_expr S f (Join ''prayers'' ''\<newline>''))
       @ [[], ''DOCUMENTS ENCLOSED:'']
       @ lines_of (eval_expr S f (Join ''documents'' ''\<newline>'')) @ [[]] @ after"
    using complaint_template_line_split by blast
  moreover have "lines_of (eval_expr S f (Join ''prayers'' ''\<newline>'')) = ps"
    using assms by (simp add: lines_of_join)
  ultimately have "lines_of (render_template S complaint_template f) =
     before @ (ps @ [[], ''DOCUMENTS ENCLOSED:''])
       @ (lines_of (eval_expr S f (Join ''documents'' ''\<newline>'')) @ [[]] @ after)"
    by simp
  then show ?thesis
    by (simp only: sublist_middle)
qed

lemma complaint_documents_lines:
  assumes "f ''documents'' = Some (Seq ds)" and "ds \<noteq> []"
    and "\<forall>x\<in>set ds. CHR 0x0A \<notin> set x"
  shows "sublist ([[], ''DOCUMENTS ENCLOSED:''] @ ds @ [[]])
           (lines_of (render_template S complaint_template f))"
proof -
  obtain before after where "lines_of (render_template S complaint_template f) =
     before @ lines_of (eval_expr S f (Join ''prayers'' ''\<newline>''))
       @ [[], ''DOCUMENTS ENCLOSED:'']
       @ lines_of (eval_expr S f (Join ''documents'' ''\<newline>'')) @ [[]] @ after"
    using complaint_template_line_split by blast
  moreover have "lines_of (eval_expr S f (Join ''documents'' ''\<newline>'')) = ds"
    using assms by (simp add: lines_of_join)
  ultimately have "lines_of (render_template S complaint_template f) =
     (before @ lines_of (eval_expr S f (Join ''prayers'' ''\<newline>'')))
       @ ([[], ''DOCUMENTS ENCLOSED:''] @ ds @ [[]]) @ after"
    by simp
  then show ?thesis
    by (simp only: sublist_middle)
qed

text \<open>The scenario's document, line by line.\<close>

lemma scenario_lines:
  "lines_of (render_template S complaint_template scenario_fields) =
     [''To,'', ''Inspector'', ''Station House Officer'', ''MG Road'', [],
      ''Subject: Theft'', [], ''Respected Sir/Madam,'', [],
      ''I, Asha Rao, resident of Pune, wish to file a formal complaint against John Smith regarding the following matter:'',
      [], ''FACTS OF THE CASE:'', [], ''...'', [], ''LEGAL BASIS:'', [],
      ''...'', [], ''PRAYERS:'', [],
      ''In light of the above, I most respectfully pray that:'', [],
      ''Register FIR'', ''Initiate investigation'', [], ''DOCUMENTS ENCLOSED:'',
      ''ID proof'', [],
      ''I hereby declare that the information provided above is true to the best of my knowledge and belief.'',
      [], ''Date: 2024-01-01'', ''Place: Pune'', [], ''Yours faithfully,'',
      ''Asha Rao'', ''9999999999'']"
  by code_simp

lemma required_fields_complaint:
  "required_fields complaint_template =
     [''authority_designation'', ''authority_name'', ''authority_address'',
      ''complaint_subject'', ''user_name'', ''location'', ''respondent_name'',
      ''issue_summary'', ''legal_insights'', ''date'', ''location'', ''user_name'',
      ''contact_details'']"
  by (simp add: complaint_template_def complaint_opening_def complaint_lists_def
      complaint_closing_def)

lemma eval_piece_default:
  assumes "f l = None" and "l \<notin> set (required_fields [p])"
  shows "eval_piece S (f(l \<mapsto> Seq [])) p = eval_piece S f p"
proof (cases p)
  case (Text t)
  then show ?thesis by simp
next
  case (Out e)
  with assms show ?thesis by (cases e) auto
qed

lemma required_fields_Cons:
  "set (required_fields (p # t)) = set (required_fields [p]) \<union> set (required_fields t)"
  by (induction "p # t" rule: required_fields.induct) auto

text \<open>
  A name without a value that is no scalar placeholder of the template may as well be
  the empty sequence: the text is the same.
\<close>

lemma render_template_default:
  "f l = None \<Longrightarrow> l \<notin> set (required_fields t)
     \<Longrightarrow> render_template S t (f(l \<mapsto> Seq [])) = render_template S t f"
proof (induction t)
  case Nil
  show ?case by (simp add: render_template_def)
next
  case (Cons p t)
  from Cons.prems have "l \<notin> set (required_fields [p])" "l \<notin> set (required_fields t)"
    unfolding required_fields_Cons [of p t] by simp_all
  then have "eval_piece S (f(l \<mapsto> Seq [])) p = eval_piece S f p"
    and "render_template S t (f(l \<mapsto> Seq [])) = render_template S t f"
    using Cons.prems(1) Cons.IH eval_piece_default by blast+
  then show ?case
    by (simp only: render_template_Cons)
qed

lemma find_default:
  "l \<notin> set ns \<Longrightarrow> find (\<lambda>n. (f(l \<mapsto> v)) n = None) ns = find (\<lambda>n. f n = None) ns"
  by (induction ns) auto

lemma find_required_None:
  "(find (\<lambda>n. f n = None) ns = None) = (\<forall>n\<in>set ns. f n \<noteq> None)"
  by (auto simp: find_None_iff)

section \<open>Properties of the Saved Cases page\<close>

text \<open>
  C9. For every current list of saved cases and every id, \<open>handleDeleteCase\<close> removes exactly
  the entries whose id is the given one: no entry with that id is left, every other entry
  is kept as often as it occurred, and the remaining list is a subsequence of the old one
  (relative order unchanged). The key \<open>savedCases\<close> of \<open>localStorage\<close> is overwritten with the
  serialization of exactly the remaining list, and no other key and no other part of the
  state changes.
\<close>

theorem handleDeleteCase_removes_exactly:
  fixes st :: "'n page_state" and ls :: storage
  assumes "handleDeleteCase stringify i (st, ls) = (st', ls')"
  shows "(\<forall>c \<in> set (savedCases st'). id_sc c \<noteq> i)
       \<and> (\<forall>c. id_sc c \<noteq> i \<longrightarrow> count_list (savedCases st') c = count_list (savedCases st) c)
       \<and> subseq (savedCases st') (savedCases st)
       \<and> ls' ''savedCases'' = Some (stringify (savedCases st'))
       \<and> (\<forall>k. k \<noteq> ''savedCases'' \<longrightarrow> ls' k = ls k)
       \<and> loading st' = loading st \<and> pushed st' = pushed st
       \<and> console_errors st' = console_errors st"
proof -
  let ?keep = "\<lambda>item::'n SavedCase. id_sc item \<noteq> i"
  from assms have st': "st' = st\<lparr>savedCases := filter ?keep (savedCases st)\<rparr>"
    and ls': "ls' = setItem ls ''savedCases'' (stringify (filter ?keep (savedCases st)))"
    by (simp_all add: handleDeleteCase_def Let_def)
  have cnt: "count_list (filter ?keep xs) c = count_list xs c" if "id_sc c \<noteq> i" for xs c
    using that by (induction xs) auto
  show ?thesis
    using cnt by (simp add: st' ls' setItem_def)
qed

text \<open>
  The statement at a list with the ids \<open>a\<close>, \<open>b\<close>, \<open>a\<close>, \<open>c\<close> and a storage that holds
  another key: deleting \<open>a\<close> leaves \<open>b\<close>, \<open>c\<close>.
\<close>

theorem handleDeleteCase_removes_exactly_witness:
  "handleDeleteCase ids_text ''a''
     (initial_state\<lparr>savedCases := map case_of_id [''a'', ''b'', ''a'', ''c''], loading := False\<rparr>,
      [''theme'' \<mapsto> ''dark''])
   = (initial_state\<lparr>savedCases := map case_of_id [''b'', ''c''], loading := False\<rparr>,
      [''theme'' \<mapsto> ''dark'', ''savedCases'' \<mapsto> ''b;c;''])
   \<and> subseq (map case_of_id [''b'', ''c'']) (map case_of_id [''a'', ''b'', ''a'', ''c''])
   \<and> [''theme'' \<mapsto> ''dark'', ''savedCases'' \<mapsto> ''b;c;''] ''savedCases''
        = Some (ids_text (map case_of_id [''b'', ''c'']))
   \<and> [''theme'' \<mapsto> ''dark'', ''savedCases'' \<mapsto> ''b;c;''] ''theme'' = Some ''dark''"
proof -
  have h: "handleDeleteCase ids_text ''a''
     (initial_state\<lparr>savedCases := map case_of_id [''a'', ''b'', ''a'', ''c''], loading := False\<rparr>,
      [''theme'' \<mapsto> ''dark''])
   = (initial_state\<lparr>savedCases := map case_of_id [''b'', ''c''], loading := False\<rparr>,
      [''theme'' \<mapsto> ''dark'', ''savedCases'' \<mapsto> ''b;c;''])"
    by (simp add: handleDeleteCase_def setItem_def ids_text_def case_of_id_def
        initial_state_def)
  show ?thesis
    using h handleDeleteCase_removes_exactly [OF h] by simp
qed

text \<open>
  C10. On mount with a valid auth token (and a \<open>JSON.parse\<close> that reads \<open>[]\<close> as the empty
  array): when \<open>localStorage\<close> has no entry \<open>savedCases\<close> the saved cases are the empty list;
  when the stored value is not valid JSON, so that parsing throws, the exception is caught,
  the saved cases remain the empty list of the initial state, the error is logged, and the
  page shows the empty-state view; and whatever the storage holds and whatever the state
  was, \<open>loading\<close> is false afterwards.
\<close>

theorem load_effect_absent_or_invalid:
  fixes parse :: "string \<Rightarrow> string + 'n SavedCase list"
  assumes "has_token a" and "parse ''[]'' = Inr []"
  shows "(getItem ls ''savedCases'' = None \<longrightarrow>
            savedCases (load_effect parse a ls initial_state) = []
          \<and> page_content (load_effect parse a ls initial_state) = EmptyState)
       \<and> (\<forall>v e. getItem ls ''savedCases'' = Some v \<and> parse v = Inl e \<longrightarrow>
            savedCases (load_effect parse a ls initial_state) = []
          \<and> page_content (load_effect parse a ls initial_state) = EmptyState
          \<and> (v \<noteq> [] \<longrightarrow> console_errors (load_effect parse a ls initial_state)
                 = [''Error loading saved cases: '' @ e]))
       \<and> (\<forall>st. loading (load_effect parse a ls st) = False)"
proof (intro conjI allI impI)
  assume "getItem ls ''savedCases'' = None"
  then show "savedCases (load_effect parse a ls initial_state) = []"
    using assms by (simp add: load_effect_def or_default_def initial_state_def)
  then show "page_content (load_effect parse a ls initial_state) = EmptyState"
    using assms(1) by (simp add: page_content_def load_effect_loading)
next
  fix v e
  assume h: "getItem ls ''savedCases'' = Some v \<and> parse v = Inl e"
  then show c: "savedCases (load_effect parse a ls initial_state) = []"
    using assms by (simp add: load_effect_def or_default_def initial_state_def)
  then show "page_content (load_effect parse a ls initial_state) = EmptyState"
    using assms(1) by (simp add: page_content_def load_effect_loading)
  assume "v \<noteq> []"
  with h show "console_errors (load_effect parse a ls initial_state)
                 = [''Error loading saved cases: '' @ e]"
    using assms by (simp add: load_effect_def or_default_def initial_state_def)
next
  fix st :: "'n page_state"
  show "loading (load_effect parse a ls st) = False"
    using assms(1) by (rule load_effect_loading)
qed

text \<open>The statement with a token \<open>t\<close> and the stored value \<open>{oops\<close>, which does not parse.\<close>

theorem load_effect_absent_or_invalid_witness:
  "has_token (Some \<lparr>token = Some ''t''\<rparr>) \<and> strict_parse ''[]'' = Inr []
   \<and> getItem [''savedCases'' \<mapsto> ''{oops''] ''savedCases'' = Some ''{oops''
   \<and> strict_parse ''{oops'' = Inl ''SyntaxError''
   \<and> savedCases (load_effect strict_parse (Some \<lparr>token = Some ''t''\<rparr>)
         [''savedCases'' \<mapsto> ''{oops''] initial_state) = []
   \<and> page_content (load_effect strict_parse (Some \<lparr>token = Some ''t''\<rparr>)
         [''savedCases'' \<mapsto> ''{oops''] initial_state) = EmptyState
   \<and> loading (load_effect strict_parse (Some \<lparr>token = Some ''t''\<rparr>)
         [''savedCases'' \<mapsto> ''{oops''] initial_state) = False"
proof -
  have t: "has_token (Some \<lparr>token = Some ''t''\<rparr>)"
    by (simp add: has_token_def)
  have p: "strict_parse ''[]'' = Inr []"
    by (simp add: strict_parse_def)
  have g: "getItem [''savedCases'' \<mapsto> ''{oops''] ''savedCases'' = Some ''{oops''"
    by (simp add: getItem_def)
  have e: "strict_parse ''{oops'' = Inl ''SyntaxError''"
    by (simp add: strict_parse_def)
  show ?thesis
    using load_effect_absent_or_invalid
      [where a = "Some \<lparr>token = Some ''t''\<rparr>" and parse = strict_parse
         and ls = "[''savedCases'' \<mapsto> ''{oops'']", OF t p] t p g e
    by blast
qed

section \<open>Properties of the complaint template\<close>

text \<open>
  C1. Every list-valued field that is supplied is joined with its separator, in the order
  in which the caller supplied it, whatever else the field mapping holds: in any
  template, a \<open>join\<close> placeholder whose name carries a sequence prints exactly the join of
  that sequence. In the complaint template this holds for the prayers and for the
  documents, each on its own (the other list may be supplied or not), and for both
  together: the document is the opening, the prayers joined with a newline, the heading
  of the enclosed documents, the documents joined with a newline, and the closing.
  Joining keeps every entry and its place: a non-empty list of entries without newlines
  is read back from the lines of the joined text, and in the document such prayers, and
  such documents, stand as consecutive lines in their order. In particular the scenario
  of the specification (prayers \<open>Register FIR\<close>, \<open>Initiate investigation\<close>, documents
  \<open>ID proof\<close>, date \<open>2024-01-01\<close>) gives a text with each prayer on its own line, in that
  order, and exactly one line \<open>Date: 2024-01-01\<close>.
\<close>

theorem complaint_lists_joined_in_order:
  "(\<forall>f n sep xs a b. f n = Some (Seq xs) \<longrightarrow>
      render_template S (a @ Out (Join n sep) # b) f =
        render_template S a f @ join sep xs @ render_template S b f)
   \<and> (\<forall>f ps. f ''prayers'' = Some (Seq ps) \<longrightarrow>
      render_template S complaint_template f =
        render_template S complaint_opening f
        @ join ''\<newline>'' ps @ ''\<newline>\<newline>DOCUMENTS ENCLOSED:\<newline>''
        @ eval_expr S f (Join ''documents'' ''\<newline>'') @ ''\<newline>\<newline>''
        @ render_template S complaint_closing f)
   \<and> (\<forall>f ds. f ''documents'' = Some (Seq ds) \<longrightarrow>
      render_template S complaint_template f =
        render_template S complaint_opening f
        @ eval_expr S f (Join ''prayers'' ''\<newline>'')
        @ ''\<newline>\<newline>DOCUMENTS ENCLOSED:\<newline>''
        @ join ''\<newline>'' ds @ ''\<newline>\<newline>''
        @ render_template S complaint_closing f)
   \<and> (\<forall>f ps ds. f ''prayers'' = Some (Seq ps) \<and> f ''documents'' = Some (Seq ds) \<longrightarrow>
      render_template S complaint_template f =
        render_template S complaint_opening f
        @ join ''\<newline>'' ps @ ''\<newline>\<newline>DOCUMENTS ENCLOSED:\<newline>''
        @ join ''\<newline>'' ds @ ''\<newline>\<newline>''
        @ render_template S complaint_closing f)
   \<and> (\<forall>xs. xs \<noteq> [] \<and> (\<forall>x\<in>set xs. CHR 0x0A \<notin> set x) \<longrightarrow>
        lines_of (join ''\<newline>'' xs) = xs)
   \<and> (\<forall>f ps. f ''prayers'' = Some (Seq ps) \<and> ps \<noteq> []
        \<and> (\<forall>x\<in>set ps. CHR 0x0A \<notin> set x) \<longrightarrow>
        sublist (ps @ [[], ''DOCUMENTS ENCLOSED:''])
          (lines_of (render_template S complaint_template f)))
   \<and> (\<forall>f ds. f ''documents'' = Some (Seq ds) \<and> ds \<noteq> []
        \<and> (\<forall>x\<in>set ds. CHR 0x0A \<notin> set x) \<longrightarrow>
        sublist ([[], ''DOCUMENTS ENCLOSED:''] @ ds @ [[]])
          (lines_of (render_template S complaint_template f)))
   \<and> (\<forall>f ps ds. f ''prayers'' = Some (Seq ps) \<and> f ''documents'' = Some (Seq ds)
        \<and> ps \<noteq> [] \<and> ds \<noteq> [] \<and> (\<forall>x\<in>set (ps @ ds). CHR 0x0A \<notin> set x) \<longrightarrow>
        sublist (ps @ [[], ''DOCUMENTS ENCLOSED:''] @ ds)
          (lines_of (render_template S complaint_template f)))
   \<and> sublist [''Register FIR'', ''Initiate investigation'']
        (lines_of (render_template S complaint_template scenario_fields))
   \<and> count_list (lines_of (render_template S complaint_template scenario_fields))
        ''Register FIR'' = 1
   \<and> count_list (lines_of (render_template S complaint_template scenario_fields))
        ''Initiate investigation'' = 1
   \<and> count_list (lines_of (render_template S complaint_template scenario_fields))
        ''Date: 2024-01-01'' = 1"
proof (intro conjI allI impI)
  fix f :: fields and n sep :: string and xs :: "string list" and a b :: template
  assume "f n = Some (Seq xs)"
  then show "render_template S (a @ Out (Join n sep) # b) f =
        render_template S a f @ join sep xs @ render_template S b f"
    by (rule render_template_join_piece)
next
  fix f ps
  assume "f ''prayers'' = Some (Seq ps)"
  then show "render_template S complaint_template f =
        render_template S complaint_opening f
        @ join ''\<newline>'' ps @ ''\<newline>\<newline>DOCUMENTS ENCLOSED:\<newline>''
        @ eval_expr S f (Join ''documents'' ''\<newline>'') @ ''\<newline>\<newline>''
        @ render_template S complaint_closing f"
    by (simp add: complaint_template_text)
next
  fix f ds
  assume "f ''documents'' = Some (Seq ds)"
  then show "render_template S complaint_template f =
        render_template S complaint_opening f
        @ eval_expr S f (Join ''prayers'' ''\<newline>'')
        @ ''\<newline>\<newline>DOCUMENTS ENCLOSED:\<newline>''
        @ join ''\<newline>'' ds @ ''\<newline>\<newline>''
        @ render_template S complaint_closing f"
    by (simp add: complaint_template_text)
next
  fix f ps ds
  assume "f ''prayers'' = Some (Seq ps) \<and> f ''documents'' = Some (Seq ds)"
  then show "render_template S complaint_template f =
        render_template S complaint_opening f
        @ join ''\<newline>'' ps @ ''\<newline>\<newline>DOCUMENTS ENCLOSED:\<newline>''
        @ join ''\<newline>'' ds @ ''\<newline>\<newline>''
        @ render_template S complaint_closing f"
    by (simp add: complaint_template_def render_template_append complaint_lists_text)
next
  fix xs :: "string list"
  assume "xs \<noteq> [] \<and> (\<forall>x\<in>set xs. CHR 0x0A \<notin> set x)"
  then show "lines_of (join ''\<newline>'' xs) = xs"
    by (simp add: lines_of_join)
next
  fix f ps
  assume "f ''prayers'' = Some (Seq ps) \<and> ps \<noteq> [] \<and> (\<forall>x\<in>set ps. CHR 0x0A \<notin> set x)"
  then show "sublist (ps @ [[], ''DOCUMENTS ENCLOSED:''])
          (lines_of (render_template S complaint_template f))"
    by (intro complaint_prayers_lines) blast+
next
  fix f ds
  assume "f ''documents'' = Some (Seq ds) \<and> ds \<noteq> [] \<and> (\<forall>x\<in>set ds. CHR 0x0A \<notin> set x)"
  then show "sublist ([[], ''DOCUMENTS ENCLOSED:''] @ ds @ [[]])
          (lines_of (render_template S complaint_template f))"
    by (intro complaint_documents_lines) blast+
next
  fix f ps ds
  assume "f ''prayers'' = Some (Seq ps) \<and> f ''documents'' = Some (Seq ds)
        \<and> ps \<noteq> [] \<and> ds \<noteq> [] \<and> (\<forall>x\<in>set (ps @ ds). CHR 0x0A \<notin> set x)"
  then show "sublist (ps @ [[], ''DOCUMENTS ENCLOSED:''] @ ds)
          (lines_of (render_template S complaint_template f))"
    by (intro complaint_template_lines) blast+
next
  have "sublist [''Register FIR'', ''Initiate investigation'']
          (take 23 (lines_of (render_template S complaint_template scenario_fields))
           @ [''Register FIR'', ''Initiate investigation'']
           @ drop 25 (lines_of (render_template S complaint_template scenario_fields)))"
    by (rule sublist_middle)
  then show "sublist [''Register FIR'', ''Initiate investigation'']
        (lines_of (render_template S complaint_template scenario_fields))"
    by (simp add: scenario_lines)
next
  show "count_list (lines_of (render_template S complaint_template scenario_fields))
        ''Register FIR'' = 1"
    by (simp add: scenario_lines)
next
  show "count_list (lines_of (render_template S complaint_template scenario_fields))
        ''Initiate investigation'' = 1"
    by (simp add: scenario_lines)
next
  show "count_list (lines_of (render_template S complaint_template scenario_fields))
        ''Date: 2024-01-01'' = 1"
    by (simp add: scenario_lines)
qed

text \<open>
  The statement at the scenario with the prayers \<open>b\<close>, \<open>a\<close>, \<open>b\<close>: they stand in the document
  in this order, the repeated entry twice, with the documents supplied and with the
  documents omitted.
\<close>

theorem complaint_lists_joined_in_order_witness:
  "unsorted_fields ''prayers'' = Some (Seq [''b'', ''a'', ''b''])
   \<and> unsorted_fields ''documents'' = Some (Seq [''ID proof''])
   \<and> lines_of (join ''\<newline>'' [''b'', ''a'', ''b'']) = [''b'', ''a'', ''b'']
   \<and> sublist [''b'', ''a'', ''b'', [], ''DOCUMENTS ENCLOSED:'', ''ID proof'']
        (lines_of (render_template (\<lambda>xs. []) complaint_template unsorted_fields))
   \<and> unsorted_without_documents ''prayers'' = Some (Seq [''b'', ''a'', ''b''])
   \<and> unsorted_without_documents ''documents'' = None
   \<and> sublist [''b'', ''a'', ''b'', [], ''DOCUMENTS ENCLOSED:'']
        (lines_of (render_template (\<lambda>xs. []) complaint_template unsorted_without_documents))
   \<and> render_template (\<lambda>xs. []) complaint_template unsorted_without_documents =
        render_template (\<lambda>xs. []) complaint_opening unsorted_without_documents
        @ ''b\<newline>a\<newline>b'' @ ''\<newline>\<newline>DOCUMENTS ENCLOSED:\<newline>'' @ ''\<newline>\<newline>''
        @ render_template (\<lambda>xs. []) complaint_closing unsorted_without_documents"
proof -
  note all = complaint_lists_joined_in_order [of "\<lambda>xs. []"]
  note prayers_text = all [THEN conjunct2, THEN conjunct1]
  note join_lines = all [THEN conjunct2, THEN conjunct2, THEN conjunct2, THEN conjunct2,
      THEN conjunct1]
  note prayers_lines = all [THEN conjunct2, THEN conjunct2, THEN conjunct2, THEN conjunct2,
      THEN conjunct2, THEN conjunct1]
  note both_lines = all [THEN conjunct2, THEN conjunct2, THEN conjunct2, THEN conjunct2,
      THEN conjunct2, THEN conjunct2, THEN conjunct2, THEN conjunct1]
  have p: "unsorted_fields ''prayers'' = Some (Seq [''b'', ''a'', ''b''])"
    by (simp add: unsorted_fields_def)
  have d: "unsorted_fields ''documents'' = Some (Seq [''ID proof''])"
    by (simp add: unsorted_fields_def scenario_fields_def)
  have m: "[''b'', ''a'', ''b''] \<noteq> [] \<and> (\<forall>x\<in>set [''b'', ''a'', ''b'']. CHR 0x0A \<notin> set x)"
    by simp
  have j: "lines_of (join ''\<newline>'' [''b'', ''a'', ''b'']) = [''b'', ''a'', ''b'']"
    by (rule join_lines [rule_format, OF m])
  have pre: "unsorted_fields ''prayers'' = Some (Seq [''b'', ''a'', ''b''])
      \<and> unsorted_fields ''documents'' = Some (Seq [''ID proof''])
      \<and> [''b'', ''a'', ''b''] \<noteq> [] \<and> [''ID proof''] \<noteq> []
      \<and> (\<forall>x\<in>set ([''b'', ''a'', ''b''] @ [''ID proof'']). CHR 0x0A \<notin> set x)"
    using p d by simp
  have "sublist ([''b'', ''a'', ''b''] @ [[], ''DOCUMENTS ENCLOSED:''] @ [''ID proof''])
        (lines_of (render_template (\<lambda>xs. []) complaint_template unsorted_fields))"
    by (rule both_lines [rule_format, OF pre])
  then have s: "sublist [''b'', ''a'', ''b'', [], ''DOCUMENTS ENCLOSED:'', ''ID proof'']
        (lines_of (render_template (\<lambda>xs. []) complaint_template unsorted_fields))"
    by simp
  have p': "unsorted_without_documents ''prayers'' = Some (Seq [''b'', ''a'', ''b''])"
    by (simp add: unsorted_without_documents_def unsorted_fields_def)
  have d': "unsorted_without_documents ''documents'' = None"
    by (simp add: unsorted_without_documents_def)
  have pre': "unsorted_without_documents ''prayers'' = Some (Seq [''b'', ''a'', ''b''])
      \<and> [''b'', ''a'', ''b''] \<noteq> [] \<and> (\<forall>x\<in>set [''b'', ''a'', ''b'']. CHR 0x0A \<notin> set x)"
    using p' by simp
  have "sublist ([''b'', ''a'', ''b''] @ [[], ''DOCUMENTS ENCLOSED:''])
        (lines_of (render_template (\<lambda>xs. []) complaint_template unsorted_without_documents))"
    by (rule prayers_lines [THEN spec [where x = unsorted_without_documents],
          THEN spec [where x = "[''b'', ''a'', ''b'']"], THEN mp, OF pre'])
  then have s': "sublist [''b'', ''a'', ''b'', [], ''DOCUMENTS ENCLOSED:'']
        (lines_of (render_template (\<lambda>xs. []) complaint_template unsorted_without_documents))"
    by simp
  have t': "render_template (\<lambda>xs. []) complaint_template unsorted_without_documents =
        render_template (\<lambda>xs. []) complaint_opening unsorted_without_documents
        @ ''b\<newline>a\<newline>b'' @ ''\<newline>\<newline>DOCUMENTS ENCLOSED:\<newline>'' @ ''\<newline>\<newline>''
        @ render_template (\<lambda>xs. []) complaint_closing unsorted_without_documents"
    using prayers_text [THEN spec [where x = unsorted_without_documents],
          THEN spec [where x = "[''b'', ''a'', ''b'']"], THEN mp, OF p'] d'
    by simp
  show ?thesis
    by (intro conjI p d j s p' d' s' t')
qed

section \<open>Properties of the Document Template Renderer\<close>

text \<open>
  C2. For every kind that has a template and every field mapping: \<open>render\<close> succeeds, with
  the template filled in, whenever every required field is present; when a required
  scalar field is omitted it fails with \<open>MissingField\<close> of an omitted required field (no
  document with a blank is returned), and of that very field when it is the only one
  omitted; and a list-valued field of the template that is omitted (and is not also a
  scalar placeholder) renders as the empty list does, so it is an empty section and not
  an error.
\<close>

theorem render_required_and_optional:
  assumes "map_of registry kind = Some t"
  shows "((\<forall>n\<in>set (required_fields t). f n \<noteq> None) \<longrightarrow>
            render S now registry kind f =
              Inr \<lparr>template_kind = kind, filled_text = render_template S t f,
                   creation_time = now\<rparr>)
       \<and> (\<forall>n\<in>set (required_fields t). f n = None \<longrightarrow>
            (\<exists>m\<in>set (required_fields t). f m = None
               \<and> render S now registry kind f = Inl (MissingField m)))
       \<and> (\<forall>n\<in>set (required_fields t).
            f n = None \<and> (\<forall>m\<in>set (required_fields t). m \<noteq> n \<longrightarrow> f m \<noteq> None) \<longrightarrow>
            render S now registry kind f = Inl (MissingField n))
       \<and> (\<forall>l\<in>set (list_fields t). l \<notin> set (required_fields t) \<and> f l = None \<longrightarrow>
            render S now registry kind f = render S now registry kind (f(l \<mapsto> Seq [])))"
proof (intro conjI ballI allI impI)
  assume "\<forall>n\<in>set (required_fields t). f n \<noteq> None"
  then have "find (\<lambda>n. f n = None) (required_fields t) = None"
    by (simp add: find_required_None)
  with assms show "render S now registry kind f =
      Inr \<lparr>template_kind = kind, filled_text = render_template S t f, creation_time = now\<rparr>"
    by (simp add: render_def)
next
  fix n assume "n \<in> set (required_fields t)" and "f n = None"
  then have "find (\<lambda>n. f n = None) (required_fields t) \<noteq> None"
    by (auto simp: find_None_iff)
  then obtain m where m: "find (\<lambda>n. f n = None) (required_fields t) = Some m"
    by blast
  then have "m \<in> set (required_fields t)" "f m = None"
    by (auto simp: find_Some_iff)
  with m assms show "\<exists>m\<in>set (required_fields t). f m = None
      \<and> render S now registry kind f = Inl (MissingField m)"
    by (auto simp: render_def)
next
  fix n assume n: "n \<in> set (required_fields t)"
    and h: "f n = None \<and> (\<forall>m\<in>set (required_fields t). m \<noteq> n \<longrightarrow> f m \<noteq> None)"
  then have "find (\<lambda>n. f n = None) (required_fields t) \<noteq> None"
    by (auto simp: find_None_iff)
  then obtain m where m: "find (\<lambda>n. f n = None) (required_fields t) = Some m"
    by blast
  then have "m \<in> set (required_fields t)" "f m = None"
    by (auto simp: find_Some_iff)
  with h have "m = n" by blast
  with m assms show "render S now registry kind f = Inl (MissingField n)"
    by (simp add: render_def)
next
  fix l assume "l \<in> set (list_fields t)"
    and h: "l \<notin> set (required_fields t) \<and> f l = None"
  then have h1: "l \<notin> set (required_fields t)" and h2: "f l = None"
    by blast+
  have a: "find (\<lambda>n. (f(l \<mapsto> Seq [])) n = None) (required_fields t)
      = find (\<lambda>n. f n = None) (required_fields t)"
    using h1 by (rule find_default)
  have b: "render_template S t (f(l \<mapsto> Seq [])) = render_template S t f"
    using h2 h1 by (rule render_template_default)
  show "render S now registry kind f = render S now registry kind (f(l \<mapsto> Seq []))"
    by (simp only: render_def assms option.case a b)
qed

text \<open>
  The statement at the complaint template: the scenario without \<open>user_name\<close> fails with
  \<open>MissingField user_name\<close>; the scenario without \<open>documents\<close> renders, and as it does with
  the empty list of documents.
\<close>

theorem render_required_and_optional_witness:
  "map_of templates ''complaint'' = Some complaint_template
   \<and> render (\<lambda>xs. []) (0::nat) templates ''complaint'' without_user_name
        = Inl (MissingField ''user_name'')
   \<and> render (\<lambda>xs. []) (0::nat) templates ''complaint'' without_documents
        = Inr \<lparr>template_kind = ''complaint'',
               filled_text = render_template (\<lambda>xs. []) complaint_template without_documents,
               creation_time = 0\<rparr>
   \<and> render (\<lambda>xs. []) (0::nat) templates ''complaint'' without_documents
        = render (\<lambda>xs. []) (0::nat) templates ''complaint''
            (without_documents(''documents'' \<mapsto> Seq []))"
proof -
  have h: "map_of templates ''complaint'' = Some complaint_template"
    by (simp add: templates_def)
  note u = render_required_and_optional
    [OF h, where f = without_user_name and S = "\<lambda>xs. []" and now = "0::nat"]
  note d = render_required_and_optional
    [OF h, where f = without_documents and S = "\<lambda>xs. []" and now = "0::nat"]
  have u1: "''user_name'' \<in> set (required_fields complaint_template)"
    by (simp add: required_fields_complaint)
  have u2: "without_user_name ''user_name'' = None
      \<and> (\<forall>m\<in>set (required_fields complaint_template).
            m \<noteq> ''user_name'' \<longrightarrow> without_user_name m \<noteq> None)"
    by (simp add: required_fields_complaint without_user_name_def scenario_fields_def)
  have a: "render (\<lambda>xs. []) (0::nat) templates ''complaint'' without_user_name
        = Inl (MissingField ''user_name'')"
    by (rule u [THEN conjunct2, THEN conjunct2, THEN conjunct1, rule_format, OF u1 u2])
  have d1: "\<forall>n\<in>set (required_fields complaint_template). without_documents n \<noteq> None"
    by (simp add: required_fields_complaint without_documents_def scenario_fields_def)
  have b: "render (\<lambda>xs. []) (0::nat) templates ''complaint'' without_documents
        = Inr \<lparr>template_kind = ''complaint'',
               filled_text = render_template (\<lambda>xs. []) complaint_template without_documents,
               creation_time = 0\<rparr>"
    by (rule d [THEN conjunct1, THEN mp, OF d1])
  have d0: "''documents'' \<in> set (list_fields complaint_template)"
    by (simp add: complaint_template_def complaint_opening_def complaint_lists_def
        complaint_closing_def)
  have d2: "''documents'' \<notin> set (required_fields complaint_template)
      \<and> without_documents ''documents'' = None"
    by (simp add: required_fields_complaint without_documents_def)
  have c: "render (\<lambda>xs. []) (0::nat) templates ''complaint'' without_documents
        = render (\<lambda>xs. []) (0::nat) templates ''complaint''
            (without_documents(''documents'' \<mapsto> Seq []))"
    by (rule d [THEN conjunct2, THEN conjunct2, THEN conjunct2, rule_format, OF d0 d2])
  show ?thesis
    by (intro conjI h a b c)
qed

end
